theory Spec2Isabelle
  imports Main "HOL-Library.Multiset"
begin

section \<open>Data model of the news detail page\<close>

text \<open>
  The page of \<^verbatim>\<open>src/src/pages/NewsDetailPage.tsx\<close> keeps React state and folds
  Supabase realtime payloads into it. State setters are modelled by explicit state
  passing: every handler takes the state record and returns the updated one.

  A payload row (\<^verbatim>\<open>payload.new\<close>, \<^verbatim>\<open>payload.old\<close>) is a JavaScript object whose
  fields may be missing: \<^verbatim>\<open>payload.old\<close> is typed \<^verbatim>\<open>Partial<T>\<close> and the empty object
  \<^verbatim>\<open>{}\<close> stands for "no row". A field that the code only tests with \<^verbatim>\<open>??\<close>,
  \<^verbatim>\<open>!= null\<close> or truthiness is an \<open>option\<close> (\<open>None\<close> is \<^verbatim>\<open>null\<close> or
  \<^verbatim>\<open>undefined\<close>); \<^verbatim>\<open>is_like\<close>, which the code also compares with \<^verbatim>\<open>===\<close>, keeps
  \<^verbatim>\<open>undefined\<close> and \<^verbatim>\<open>null\<close> apart.

  The article identifier \<^verbatim>\<open>id\<close> that \<^verbatim>\<open>useParams\<close> returns (a string or
  \<^verbatim>\<open>undefined\<close>) is the argument \<open>aid\<close> of the functions below.
\<close>

datatype 'a jsfield = Undefined | Null | Val 'a

datatype eventType = INSERT | UPDATE | DELETE | TRUNCATE

text \<open>\<^verbatim>\<open>RealtimePostgresChangesPayload<T>\<close>: \<open>None\<close> in \<open>new\<close> or \<open>old\<close> is a
  \<^verbatim>\<open>null\<close>/\<^verbatim>\<open>undefined\<close> row (falsy); the empty object is a row with every field absent
  (truthy).\<close>

record ('n, 'o) payload =
  eventType :: eventType
  new :: "'n option"
  old :: "'o option"

text \<open>\<^verbatim>\<open>type LikeRecord = { id: string; news_id: string; is_like: boolean | null }\<close>,
  read through \<^verbatim>\<open>Partial\<close>.\<close>

record LikeRecord =
  like_id :: "string option"
  like_news_id :: "string option"
  is_like :: "bool jsfield"

text \<open>\<^verbatim>\<open>type NewsComment\<close>: the row a comment INSERT or UPDATE carries in
  \<^verbatim>\<open>payload.new\<close> and the element type of the comment list. (On a DELETE or a
  TRUNCATE \<^verbatim>\<open>payload.new\<close> is the empty object, from which the handler could only
  read an absent \<^verbatim>\<open>news_id\<close>: it is \<open>None\<close> there.)\<close>

record NewsComment =
  comment_id :: string
  comment_news_id :: string
  user_name :: "string option"
  comment_text :: "string option"
  created_at :: string

text \<open>\<^verbatim>\<open>Partial<NewsComment>\<close>, the type of \<^verbatim>\<open>payload.old\<close> of a comment event.\<close>

record NewsComment_partial =
  old_comment_id :: "string option"
  old_comment_news_id :: "string option"
  old_user_name :: "string option"
  old_comment_text :: "string option"
  old_created_at :: "string option"

text \<open>\<^verbatim>\<open>type ViewRecord = { news_id: string; count: number | null }\<close>.\<close>

record ViewRecord =
  view_news_id :: "string option"
  view_count :: "int option"

record Tag =
  name :: "string option"

record Picture =
  url :: "string option"

record NewsDetail =
  detail_id :: string
  title :: string
  detail_text :: string
  detail_created_at :: string
  tags :: "Tag list"
  pictures :: "Picture list"

text \<open>\<^verbatim>\<open>data.views\<close> is \<^verbatim>\<open>ViewRecord | ViewRecord[] | null\<close>.\<close>

datatype views_shape = One ViewRecord | Many "ViewRecord list"

text \<open>The row the snapshot query returns (\<^verbatim>\<open>data\<close> in \<^verbatim>\<open>fetchDetails\<close>).\<close>

record snapshot =
  data_id :: string
  data_title :: string
  data_text :: string
  data_created_at :: string
  data_tags :: "Tag list option"
  data_pictures :: "Picture list option"
  data_comments :: "NewsComment list option"
  data_likes :: "LikeRecord list option"
  data_views :: "views_shape option"

text \<open>\<^verbatim>\<open>{ data, error: fetchError }\<close> of the snapshot query; the error is
  represented by its \<^verbatim>\<open>message\<close>.\<close>

record fetch_response =
  data :: "snapshot option"
  fetchError :: "string option"


text \<open>The React state of the page that the modelled functions read or write, and
  the ref \<^verbatim>\<open>hasIncrementedView\<close>. (The form state \<^verbatim>\<open>commentError\<close>, \<^verbatim>\<open>isLiking\<close>,
  \<^verbatim>\<open>isSubmittingComment\<close>, \<^verbatim>\<open>commentForm\<close> is touched by none of them.)\<close>

record page_state =
  newsItem :: "NewsDetail option"
  comments :: "NewsComment list"
  likesCount :: int
  dislikesCount :: int
  viewCount :: int
  loading :: bool
  error :: "string option"
  hasIncrementedView :: bool

section \<open>JavaScript operators used by the page\<close>

text \<open>Truthiness of a string-or-undefined (\<^verbatim>\<open>!id\<close>, \<^verbatim>\<open>!targetId\<close>): the empty string
  is falsy.\<close>

definition truthy :: "string option \<Rightarrow> bool" where
  "truthy v = (case v of None \<Rightarrow> False | Some s \<Rightarrow> s \<noteq> [])"

text \<open>Truthiness of \<^verbatim>\<open>is_like\<close>: only \<^verbatim>\<open>true\<close> is truthy.\<close>

definition truthy_like :: "bool jsfield \<Rightarrow> bool" where
  "truthy_like v = (v = Val True)"

text \<open>\<^verbatim>\<open>a ?? b\<close>.\<close>

definition nullish :: "'a option \<Rightarrow> 'a option \<Rightarrow> 'a option" where
  "nullish a b = (case a of Some x \<Rightarrow> Some x | None \<Rightarrow> b)"

text \<open>\<^verbatim>\<open>row?.field\<close>.\<close>

definition opt_chain :: "'r option \<Rightarrow> ('r \<Rightarrow> 'a option) \<Rightarrow> 'a option" where
  "opt_chain r f = (case r of None \<Rightarrow> None | Some x \<Rightarrow> f x)"

text \<open>\<^verbatim>\<open>Math.max(prev - 1, 0)\<close>.\<close>

definition dec_floor :: "int \<Rightarrow> int" where
  "dec_floor prev = max (prev - 1) 0"

section \<open>Snapshot fetch\<close>

text \<open>
  \<^verbatim>\<open>sortCommentsByDate\<close> (lines 43--47): a copy of the list sorted with the comparator
  \<^verbatim>\<open>new Date(a.created_at).getTime() - new Date(b.created_at).getTime()\<close>.
  Date parsing belongs to the JavaScript runtime, so it is the parameter \<open>getTime\<close>,
  from the timestamp string to epoch milliseconds. \<^verbatim>\<open>Array.prototype.sort\<close> is stable,
  and with this comparator it sorts ascending by the parsed time, which is what
  \<^const>\<open>sort_key\<close> computes. (An unparseable timestamp would give \<^verbatim>\<open>NaN\<close> and an
  implementation-defined order; the \<^verbatim>\<open>created_at\<close> column is a timestamp, and the
  model takes every timestamp as parseable.)
\<close>

definition sortCommentsByDate :: "(string \<Rightarrow> int) \<Rightarrow> NewsComment list \<Rightarrow> NewsComment list" where
  "sortCommentsByDate getTime cs = sort_key (\<lambda>c. getTime (created_at c)) cs"

text \<open>\<^verbatim>\<open>coerceViewCount\<close> (lines 49--59).\<close>

definition coerceViewCount :: "views_shape option \<Rightarrow> int" where
  "coerceViewCount views =
     (case views of
        None \<Rightarrow> 0
      | Some (Many vs) \<Rightarrow>
          (case vs of [] \<Rightarrow> 0 | v # _ \<Rightarrow> (case view_count v of None \<Rightarrow> 0 | Some c \<Rightarrow> c))
      | Some (One v) \<Rightarrow> (case view_count v of None \<Rightarrow> 0 | Some c \<Rightarrow> c))"

text \<open>
  \<^verbatim>\<open>fetchDetails\<close> (lines 82--140) is asynchronous. \<open>fetchDetails_start\<close> is the part
  that runs before the \<^verbatim>\<open>await\<close>, \<open>fetchDetails_finish\<close> the part that runs when the
  query has answered; other callbacks may run in between. \<open>fetchDetails\<close> is the
  whole call with nothing in between.
\<close>

definition fetchDetails_start :: "string option \<Rightarrow> page_state \<Rightarrow> page_state" where
  "fetchDetails_start aid s =
     (if \<not> truthy aid then s else s\<lparr>loading := True, error := None\<rparr>)"

definition initialLikes :: "LikeRecord list \<Rightarrow> int" where
  "initialLikes likeRecords = int (length (filter (\<lambda>like. truthy_like (is_like like)) likeRecords))"

definition initialDislikes :: "LikeRecord list \<Rightarrow> int" where
  "initialDislikes likeRecords = int (length (filter (\<lambda>like. is_like like = Val False) likeRecords))"

definition fetchDetails_finish ::
  "(string \<Rightarrow> int) \<Rightarrow> string option \<Rightarrow> fetch_response \<Rightarrow> page_state \<Rightarrow> page_state" where
  "fetchDetails_finish getTime aid r s =
     (if \<not> truthy aid then s
      else case fetchError r of
        Some message \<Rightarrow> s\<lparr>error := Some message, loading := False\<rparr>
      | None \<Rightarrow>
         (case data r of
            None \<Rightarrow> s\<lparr>error := Some ''News article not found.'', loading := False\<rparr>
          | Some d \<Rightarrow>
              s\<lparr>newsItem := Some \<lparr>detail_id = data_id d, title = data_title d,
                     detail_text = data_text d, detail_created_at = data_created_at d,
                     tags = (case data_tags d of None \<Rightarrow> [] | Some ts \<Rightarrow> ts),
                     pictures = (case data_pictures d of None \<Rightarrow> [] | Some ps \<Rightarrow> ps)\<rparr>,
                comments := sortCommentsByDate getTime
                     (case data_comments d of None \<Rightarrow> [] | Some cs \<Rightarrow> cs),
                likesCount := initialLikes (case data_likes d of None \<Rightarrow> [] | Some ls \<Rightarrow> ls),
                dislikesCount := initialDislikes (case data_likes d of None \<Rightarrow> [] | Some ls \<Rightarrow> ls),
                viewCount := coerceViewCount (data_views d),
                loading := False\<rparr>))"

definition fetchDetails ::
  "(string \<Rightarrow> int) \<Rightarrow> string option \<Rightarrow> fetch_response \<Rightarrow> page_state \<Rightarrow> page_state" where
  "fetchDetails getTime aid r s = fetchDetails_finish getTime aid r (fetchDetails_start aid s)"

section \<open>Realtime handlers\<close>

text \<open>
  \<^verbatim>\<open>handleLikeChange\<close> (lines 176--215). The result pairs the new state with a flag
  that says whether \<^verbatim>\<open>fetchDetails()\<close> was called; the call runs the synchronous part
  of \<^verbatim>\<open>fetchDetails\<close> at once, and its answer arrives later.
\<close>

definition like_targetId :: "(LikeRecord, LikeRecord) payload \<Rightarrow> string option" where
  "like_targetId p = nullish (opt_chain (new p) like_news_id) (opt_chain (old p) like_news_id)"

definition handleLikeChange ::
  "string option \<Rightarrow> (LikeRecord, LikeRecord) payload \<Rightarrow> page_state \<Rightarrow> page_state \<times> bool" where
  "handleLikeChange aid p s =
     (let newLike = new p; oldLike = old p; targetId = like_targetId p in
      if \<not> truthy targetId \<or> targetId \<noteq> aid then (s, False)
      else case eventType p of
        INSERT \<Rightarrow>
          (case newLike of
             None \<Rightarrow> (s, False)
           | Some n \<Rightarrow>
               if truthy_like (is_like n) then (s\<lparr>likesCount := likesCount s + 1\<rparr>, False)
               else (s\<lparr>dislikesCount := dislikesCount s + 1\<rparr>, False))
      | DELETE \<Rightarrow>
          (case oldLike of
             None \<Rightarrow> (s, False)
           | Some od \<Rightarrow>
               if truthy_like (is_like od) then (s\<lparr>likesCount := dec_floor (likesCount s)\<rparr>, False)
               else (s\<lparr>dislikesCount := dec_floor (dislikesCount s)\<rparr>, False))
      | UPDATE \<Rightarrow>
          (case newLike of
             None \<Rightarrow> (s, False)
           | Some n \<Rightarrow>
              (case oldLike of
                 None \<Rightarrow> (s, False)
               | Some od \<Rightarrow>
                   if is_like od = is_like n then (s, False)
                   else if truthy_like (is_like n)
                     then (s\<lparr>likesCount := likesCount s + 1,
                              dislikesCount := dec_floor (dislikesCount s)\<rparr>, False)
                     else (s\<lparr>dislikesCount := dislikesCount s + 1,
                              likesCount := dec_floor (likesCount s)\<rparr>, False)))
      | TRUNCATE \<Rightarrow> (fetchDetails_start aid s, True))"

text \<open>\<^verbatim>\<open>handleCommentChange\<close> (lines 217--238).\<close>

definition comment_targetId :: "(NewsComment, NewsComment_partial) payload \<Rightarrow> string option" where
  "comment_targetId p =
     nullish (opt_chain (new p) (\<lambda>c. Some (comment_news_id c)))
             (opt_chain (old p) old_comment_news_id)"

definition handleCommentChange ::
  "(string \<Rightarrow> int) \<Rightarrow> string option \<Rightarrow> (NewsComment, NewsComment_partial) payload
     \<Rightarrow> page_state \<Rightarrow> page_state" where
  "handleCommentChange getTime aid p s =
     (let newComment = new p; oldComment = old p; targetId = comment_targetId p in
      if \<not> truthy targetId \<or> targetId \<noteq> aid then s
      else case eventType p of
        INSERT \<Rightarrow>
          (case newComment of
             None \<Rightarrow> s
           | Some n \<Rightarrow>
               s\<lparr>comments := sortCommentsByDate getTime
                    (filter (\<lambda>c. comment_id c \<noteq> comment_id n) (comments s) @ [n])\<rparr>)
      | UPDATE \<Rightarrow>
          (case newComment of
             None \<Rightarrow> s
           | Some n \<Rightarrow>
               s\<lparr>comments := sortCommentsByDate getTime
                    (filter (\<lambda>c. comment_id c \<noteq> comment_id n) (comments s) @ [n])\<rparr>)
      | DELETE \<Rightarrow>
          (case oldComment of
             None \<Rightarrow> s
           | Some od \<Rightarrow>
               s\<lparr>comments := filter (\<lambda>c. Some (comment_id c) \<noteq> old_comment_id od) (comments s)\<rparr>)
      | TRUNCATE \<Rightarrow> s\<lparr>comments := []\<rparr>)"

text \<open>\<^verbatim>\<open>handleViewChange\<close> (lines 240--260).\<close>

definition view_targetId :: "(ViewRecord, ViewRecord) payload \<Rightarrow> string option" where
  "view_targetId p = nullish (opt_chain (new p) view_news_id) (opt_chain (old p) view_news_id)"

definition handleViewChange ::
  "string option \<Rightarrow> (ViewRecord, ViewRecord) payload \<Rightarrow> page_state \<Rightarrow> page_state" where
  "handleViewChange aid p s =
     (let newView = new p; targetId = view_targetId p in
      if \<not> truthy targetId \<or> targetId \<noteq> aid then s
      else if eventType p = TRUNCATE then s\<lparr>viewCount := 0\<rparr>
      else case opt_chain newView view_count of
        Some c \<Rightarrow> s\<lparr>viewCount := c\<rparr>
      | None \<Rightarrow> s)"

section \<open>View increment\<close>





section \<open>One activation of the page\<close>




section \<open>Folding event streams\<close>

text \<open>Payloads are handled one at a time, in delivery order.\<close>

definition fold_likes ::
  "string option \<Rightarrow> (LikeRecord, LikeRecord) payload list \<Rightarrow> page_state \<Rightarrow> page_state" where
  "fold_likes aid ps s = fold (\<lambda>p st. fst (handleLikeChange aid p st)) ps s"

definition fold_comments ::
  "(string \<Rightarrow> int) \<Rightarrow> string option \<Rightarrow> (NewsComment, NewsComment_partial) payload list
     \<Rightarrow> page_state \<Rightarrow> page_state" where
  "fold_comments getTime aid ps s = fold (handleCommentChange getTime aid) ps s"

text \<open>The invariant of the comment list: ascending by parsed creation time, and no
  identifier twice.\<close>

definition comments_sorted :: "(string \<Rightarrow> int) \<Rightarrow> NewsComment list \<Rightarrow> bool" where
  "comments_sorted getTime cs = sorted (map (\<lambda>c. getTime (created_at c)) cs)"

definition comments_distinct :: "NewsComment list \<Rightarrow> bool" where
  "comments_distinct cs = distinct (map comment_id cs)"

section \<open>Live reaction rows, in the words of the specification\<close>

text \<open>
  The rows that are live after an event: inserted and not yet deleted, each with the
  \<^verbatim>\<open>is_like\<close> it currently has. A row counts as a like when that is \<^verbatim>\<open>true\<close> and as a
  dislike when it is \<^verbatim>\<open>false\<close>. This is the reference the counters are compared
  with; it follows the specification, not the page's code.
\<close>

type_synonym live_rows = "(string \<times> bool jsfield) list"

definition live_step :: "(LikeRecord, LikeRecord) payload \<Rightarrow> live_rows \<Rightarrow> live_rows" where
  "live_step p rows =
     (case eventType p of
        INSERT \<Rightarrow>
          (case new p of
             Some n \<Rightarrow>
               (case like_id n of
                  Some k \<Rightarrow> (k, is_like n) # rows
                | None \<Rightarrow> rows)
           | None \<Rightarrow> rows)
      | UPDATE \<Rightarrow>
          (case new p of
             Some n \<Rightarrow>
               (case like_id n of
                  Some k \<Rightarrow> map (\<lambda>(k', v'). if k' = k then (k', is_like n) else (k', v')) rows
                | None \<Rightarrow> rows)
           | None \<Rightarrow> rows)
      | DELETE \<Rightarrow>
          (case old p of
             Some od \<Rightarrow>
               (case like_id od of
                  Some k \<Rightarrow> filter (\<lambda>(k', v'). k' \<noteq> k) rows
                | None \<Rightarrow> rows)
           | None \<Rightarrow> rows)
      | TRUNCATE \<Rightarrow> rows)"

definition live :: "(LikeRecord, LikeRecord) payload list \<Rightarrow> live_rows" where
  "live ps = fold live_step ps []"

definition count_polarity :: "bool \<Rightarrow> live_rows \<Rightarrow> int" where
  "count_polarity b rows = int (length (filter (\<lambda>(k, v). v = Val b) rows))"

text \<open>
  An event that fits the rows live when it arrives. Its payload names the viewed
  article in the row the guard reads (\<^verbatim>\<open>new\<close>, or \<^verbatim>\<open>old\<close> when \<^verbatim>\<open>new\<close> has no
  \<^verbatim>\<open>news_id\<close>), and it is an insert, update or delete whose rows carry a boolean
  \<^verbatim>\<open>is_like\<close>. An insert is for an identifier that is not live. An update or a delete
  is for a live row, and its old row carries the identifier and the \<^verbatim>\<open>is_like\<close> that
  row has. So the live rows have pairwise distinct identifiers, an event delivered
  twice does not fit the second time, and the events of one row come as insert, then
  updates, then delete.
\<close>

definition event_fits :: "string option \<Rightarrow> live_rows \<Rightarrow> (LikeRecord, LikeRecord) payload \<Rightarrow> bool" where
  "event_fits aid rows p =
     (truthy aid \<and> like_targetId p = aid \<and>
      (case eventType p of
         INSERT \<Rightarrow>
           (case new p of
              Some n \<Rightarrow>
                (case (like_id n, is_like n) of
                   (Some k, Val b) \<Rightarrow> k \<notin> set (map fst rows)
                 | _ \<Rightarrow> False)
            | None \<Rightarrow> False)
       | UPDATE \<Rightarrow>
           (case (new p, old p) of
              (Some n, Some od) \<Rightarrow>
                (case (like_id n, is_like n, is_like od) of
                   (Some k, Val b, Val b0) \<Rightarrow> like_id od = Some k \<and> (k, Val b0) \<in> set rows
                 | _ \<Rightarrow> False)
            | _ \<Rightarrow> False)
       | DELETE \<Rightarrow>
           (case old p of
              Some od \<Rightarrow>
                (case (like_id od, is_like od) of
                   (Some k, Val b0) \<Rightarrow> (k, Val b0) \<in> set rows
                 | _ \<Rightarrow> False)
            | None \<Rightarrow> False)
       | TRUNCATE \<Rightarrow> False))"

fun stream_fits :: "string option \<Rightarrow> live_rows \<Rightarrow> (LikeRecord, LikeRecord) payload list \<Rightarrow> bool" where
  "stream_fits aid rows [] = True"
| "stream_fits aid rows (p # ps) = (event_fits aid rows p \<and> stream_fits aid (live_step p rows) ps)"

section \<open>The react-news revision of the page\<close>

text \<open>
  The repository holds a second revision of the same page, the second document of
  \<^verbatim>\<open>src/react-news/src/pages/TagPage.tsx\<close> (its \<^verbatim>\<open>NewsDetailPage\<close>). Its reaction rows
  carry the owning user, and it keeps the viewer's own reaction in \<^verbatim>\<open>userReaction\<close>
  and \<^verbatim>\<open>fetchDetails\<close> in the ref \<^verbatim>\<open>fetchDetailsRef\<close>. \<open>fetchDetailsRef\<close> below says
  whether the ref holds the function (it does once the effect of lines 207--209 of
  that file has run). \<open>handleLikeChange_rn\<close> is its \<^verbatim>\<open>handleLikeChange\<close> (lines 256--310
  of that file); \<open>userId\<close> is the viewer, \<^verbatim>\<open>user?.id ?? null\<close>.
\<close>

datatype Reaction = Like | Dislike

record LikeRecord_rn = LikeRecord +
  user_id :: "string option"

record page_state_rn = page_state +
  userReaction :: "Reaction option"
  fetchDetailsRef :: bool

definition like_targetId_rn :: "(LikeRecord_rn, LikeRecord_rn) payload \<Rightarrow> string option" where
  "like_targetId_rn p = nullish (opt_chain (new p) like_news_id) (opt_chain (old p) like_news_id)"

definition reaction_of :: "bool jsfield \<Rightarrow> Reaction" where
  "reaction_of v = (if truthy_like v then Like else Dislike)"

definition handleLikeChange_rn ::
  "string option \<Rightarrow> string option \<Rightarrow> (LikeRecord_rn, LikeRecord_rn) payload \<Rightarrow> page_state_rn
     \<Rightarrow> page_state_rn \<times> bool" where
  "handleLikeChange_rn aid userId p s =
     (let newLike = new p; oldLike = old p; targetId = like_targetId_rn p in
      if \<not> truthy targetId \<or> targetId \<noteq> aid then (s, False)
      else case eventType p of
        INSERT \<Rightarrow>
          (case newLike of
             None \<Rightarrow> (s, False)
           | Some n \<Rightarrow>
              (let s1 = (if truthy_like (is_like n) then s\<lparr>likesCount := likesCount s + 1\<rparr>
                         else s\<lparr>dislikesCount := dislikesCount s + 1\<rparr>) in
               if truthy userId \<and> user_id n = userId
                 then (s1\<lparr>userReaction := Some (reaction_of (is_like n))\<rparr>, False)
                 else (s1, False)))
      | DELETE \<Rightarrow>
          (case oldLike of
             None \<Rightarrow> (s, False)
           | Some od \<Rightarrow>
              (let s1 = (if truthy_like (is_like od) then s\<lparr>likesCount := dec_floor (likesCount s)\<rparr>
                         else s\<lparr>dislikesCount := dec_floor (dislikesCount s)\<rparr>) in
               if truthy userId \<and> user_id od = userId
                 then (s1\<lparr>userReaction := None\<rparr>, False)
                 else (s1, False)))
      | UPDATE \<Rightarrow>
          (case newLike of
             None \<Rightarrow> (s, False)
           | Some n \<Rightarrow>
              (case oldLike of
                 None \<Rightarrow> (s, False)
               | Some od \<Rightarrow>
                   if is_like od = is_like n then (s, False)
                   else
                    (let s1 = (if truthy_like (is_like n)
                               then s\<lparr>likesCount := likesCount s + 1,
                                      dislikesCount := dec_floor (dislikesCount s)\<rparr>
                               else s\<lparr>dislikesCount := dislikesCount s + 1,
                                      likesCount := dec_floor (likesCount s)\<rparr>) in
                     if truthy userId \<and> user_id n = userId
                       then (s1\<lparr>userReaction := Some (reaction_of (is_like n))\<rparr>, False)
                       else (s1, False))))
      | TRUNCATE \<Rightarrow>
          (let s1 = s\<lparr>likesCount := 0, dislikesCount := 0, userReaction := None\<rparr> in
           if fetchDetailsRef s then (s1\<lparr>loading := True, error := None\<rparr>, True)
           else (s1, False)))"

text \<open>A react-news payload without the owner field of its rows, as
  \<^verbatim>\<open>NewsDetailPage.tsx\<close> reads it.\<close>

definition forget_owner :: "(LikeRecord_rn, LikeRecord_rn) payload \<Rightarrow> (LikeRecord, LikeRecord) payload" where
  "forget_owner p =
     \<lparr>eventType = eventType p,
      new = map_option LikeRecord.truncate (new p),
      old = map_option LikeRecord.truncate (old p)\<rparr>"

section \<open>Auxiliary definitions\<close>


text \<open>The state of a freshly mounted page: the initial values of the \<^verbatim>\<open>useState\<close> and
  \<^verbatim>\<open>useRef\<close> calls (lines 64--75).\<close>

definition initial_state :: page_state where
  "initial_state =
     \<lparr>newsItem = None, comments = [], likesCount = 0, dislikesCount = 0, viewCount = 0,
      loading = True, error = None, hasIncrementedView = False\<rparr>"

text \<open>The same for the react-news revision, with \<^verbatim>\<open>fetchDetailsRef\<close> assigned.\<close>

definition initial_state_rn :: page_state_rn where
  "initial_state_rn =
     \<lparr>newsItem = None, comments = [], likesCount = 0, dislikesCount = 0, viewCount = 0,
      loading = True, error = None, hasIncrementedView = False,
      userReaction = None, fetchDetailsRef = True\<rparr>"

text \<open>Rows and payloads used in the examples below. \<open>no_row\<close> is the empty object
  \<^verbatim>\<open>{}\<close>.\<close>

definition like_row :: "string \<Rightarrow> string \<Rightarrow> bool jsfield \<Rightarrow> LikeRecord" where
  "like_row k a v = \<lparr>like_id = Some k, like_news_id = Some a, is_like = v\<rparr>"

definition no_row :: LikeRecord where
  "no_row = \<lparr>like_id = None, like_news_id = None, is_like = Undefined\<rparr>"

text \<open>An old row as the database sends it under the default replica identity: the
  primary key only.\<close>

definition key_only_row :: "string \<Rightarrow> LikeRecord" where
  "key_only_row k = \<lparr>like_id = Some k, like_news_id = None, is_like = Undefined\<rparr>"

definition no_row_rn :: LikeRecord_rn where
  "no_row_rn = \<lparr>like_id = None, like_news_id = None, is_like = Undefined, user_id = None\<rparr>"

definition like_row_rn :: "string \<Rightarrow> string \<Rightarrow> string \<Rightarrow> bool jsfield \<Rightarrow> LikeRecord_rn" where
  "like_row_rn k a u v = \<lparr>like_id = Some k, like_news_id = Some a, is_like = v, user_id = Some u\<rparr>"

definition like_event :: "eventType \<Rightarrow> 'r \<Rightarrow> 'r \<Rightarrow> ('r, 'r) payload" where
  "like_event e n od = \<lparr>eventType = e, new = Some n, old = Some od\<rparr>"

definition comment_row :: "string \<Rightarrow> string \<Rightarrow> string \<Rightarrow> string \<Rightarrow> NewsComment" where
  "comment_row k a txt ts =
     \<lparr>comment_id = k, comment_news_id = a, user_name = Some ''ann'', comment_text = Some txt,
      created_at = ts\<rparr>"

definition comment_insert :: "NewsComment \<Rightarrow> (NewsComment, NewsComment_partial) payload" where
  "comment_insert c = \<lparr>eventType = INSERT, new = Some c, old = None\<rparr>"

text \<open>Epoch milliseconds of the two timestamps the examples use.\<close>

definition example_getTime :: "string \<Rightarrow> int" where
  "example_getTime ts =
     (if ts = ''2024-01-01T00:00:00Z'' then 1704067200000
      else if ts = ''2024-01-02T00:00:00Z'' then 1704153600000
      else 0)"

section \<open>Auxiliary lemmas\<close>

lemma handleLikeChange_nonneg:
  assumes "0 \<le> likesCount s" "0 \<le> dislikesCount s"
  shows "0 \<le> likesCount (fst (handleLikeChange aid p s)) \<and> 0 \<le> dislikesCount (fst (handleLikeChange aid p s))"
  using assms
  by (auto simp: handleLikeChange_def Let_def dec_floor_def fetchDetails_start_def
      split: eventType.splits option.splits)

lemma fold_likes_nonneg:
  "0 \<le> likesCount s \<Longrightarrow> 0 \<le> dislikesCount s \<Longrightarrow>
   0 \<le> likesCount (fold_likes aid ps s) \<and> 0 \<le> dislikesCount (fold_likes aid ps s)"
proof (induction ps arbitrary: s)
  case Nil
  then show ?case by (simp add: fold_likes_def)
next
  case (Cons p ps)
  have "0 \<le> likesCount (fst (handleLikeChange aid p s))" "0 \<le> dislikesCount (fst (handleLikeChange aid p s))"
    using handleLikeChange_nonneg[OF Cons.prems] by simp_all
  from Cons.IH[OF this] show ?case by (simp add: fold_likes_def)
qed

lemma sort_append_sorted:
  "sort_key f (sort_key f xs @ ys) = sort_key f (xs @ ys)"
proof (rule properties_for_sort_key)
  show "mset (sort_key f (xs @ ys)) = mset (sort_key f xs @ ys)" by simp
  show "sorted (map f (sort_key f (xs @ ys)))" by simp
  fix k assume "k \<in> set (sort_key f (xs @ ys))"
  have "filter (\<lambda>x. f x = f k) (sort_key f (xs @ ys)) = filter (\<lambda>x. f x = f k) (sort_key f xs @ ys)"
    by (simp add: sort_key_stable)
  moreover have "(\<lambda>x. f k = f x) = (\<lambda>x. f x = f k)" by auto
  ultimately show "filter (\<lambda>x. f k = f x) (sort_key f (xs @ ys)) = filter (\<lambda>x. f k = f x) (sort_key f xs @ ys)"
    by simp
qed

lemma upsert_twice:
  "sortCommentsByDate g (filter (\<lambda>c. comment_id c \<noteq> comment_id n)
       (sortCommentsByDate g (filter (\<lambda>c. comment_id c \<noteq> comment_id n) cs @ [n])) @ [n])
   = sortCommentsByDate g (filter (\<lambda>c. comment_id c \<noteq> comment_id n) cs @ [n])"
  by (simp add: sortCommentsByDate_def filter_sort sort_append_sorted)

lemma comment_step_sorted:
  "comments_sorted g (comments s) \<Longrightarrow> comments_sorted g (comments (handleCommentChange g aid p s))"
  by (auto simp: handleCommentChange_def Let_def comments_sorted_def sortCommentsByDate_def sorted_filter
      split: eventType.splits option.splits)

lemma distinct_sortComments:
  "comments_distinct (sortCommentsByDate g cs) = comments_distinct cs"
proof -
  have "mset (map comment_id (sort_key (\<lambda>c. g (created_at c)) cs)) = mset (map comment_id cs)"
    by simp
  then show ?thesis unfolding comments_distinct_def sortCommentsByDate_def
    by (rule mset_eq_imp_distinct_iff)
qed

lemma comment_step_distinct:
  "comments_distinct (comments s) \<Longrightarrow> comments_distinct (comments (handleCommentChange g aid p s))"
  by (auto simp: handleCommentChange_def Let_def distinct_sortComments
      split: eventType.splits option.splits)
     (auto simp: comments_distinct_def distinct_map_filter)

lemma fold_comments_invariant:
  "comments_sorted g (comments s) \<Longrightarrow> comments_distinct (comments s) \<Longrightarrow>
   comments_sorted g (comments (fold_comments g aid ps s)) \<and>
   comments_distinct (comments (fold_comments g aid ps s))"
proof (induction ps arbitrary: s)
  case Nil
  then show ?case by (simp add: fold_comments_def)
next
  case (Cons p ps)
  from Cons.IH[OF comment_step_sorted[OF Cons.prems(1)] comment_step_distinct[OF Cons.prems(2)]]
  show ?case by (simp add: fold_comments_def)
qed

lemmas example_defs =
  initial_state_def initial_state_rn_def like_row_def no_row_def no_row_rn_def like_row_rn_def
  like_event_def
  comment_row_def comment_insert_def example_getTime_def

lemmas js_defs = truthy_def truthy_like_def nullish_def opt_chain_def dec_floor_def


lemma count_polarity_Cons:
  "count_polarity b ((k, v) # rows) = (if v = Val b then 1 else 0) + count_polarity b rows"
  by (simp add: count_polarity_def)

lemma filter_absent_key:
  "k \<notin> fst ` set rows \<Longrightarrow> filter (\<lambda>(k', v'). k' \<noteq> k) rows = rows"
  by (induction rows) auto

lemma update_absent_key:
  "k \<notin> fst ` set rows \<Longrightarrow> map (\<lambda>(k', v'). if k' = k then (k', vn) else (k', v')) rows = rows"
  by (induction rows) auto

lemma count_polarity_delete:
  "distinct (map fst rows) \<Longrightarrow> (k, v0) \<in> set rows \<Longrightarrow>
   count_polarity b (filter (\<lambda>(k', v'). k' \<noteq> k) rows)
     = count_polarity b rows - (if v0 = Val b then 1 else 0)"
proof (induction rows)
  case Nil
  then show ?case by simp
next
  case (Cons r rows)
  obtain k1 v1 where r: "r = (k1, v1)" by (cases r)
  show ?case
  proof (cases "k1 = k")
    case True
    with Cons.prems r have v: "v1 = v0" and "k \<notin> fst ` set rows" by (auto simp: image_iff)
    then have "filter (\<lambda>(k', v'). k' \<noteq> k) rows = rows" by (simp add: filter_absent_key)
    with True r v show ?thesis by (simp add: count_polarity_Cons)
  next
    case False
    with Cons.prems r have "(k, v0) \<in> set rows" "distinct (map fst rows)" by auto
    from Cons.IH[OF this(2) this(1)] False r show ?thesis by (simp add: count_polarity_Cons)
  qed
qed

lemma count_polarity_update:
  "distinct (map fst rows) \<Longrightarrow> (k, v0) \<in> set rows \<Longrightarrow>
   count_polarity b (map (\<lambda>(k', v'). if k' = k then (k', vn) else (k', v')) rows)
     = count_polarity b rows - (if v0 = Val b then 1 else 0) + (if vn = Val b then 1 else 0)"
proof (induction rows)
  case Nil
  then show ?case by simp
next
  case (Cons r rows)
  obtain k1 v1 where r: "r = (k1, v1)" by (cases r)
  show ?case
  proof (cases "k1 = k")
    case True
    with Cons.prems r have v: "v1 = v0" and "k \<notin> fst ` set rows" by (auto simp: image_iff)
    then have "map (\<lambda>(k', v'). if k' = k then (k', vn) else (k', v')) rows = rows"
      by (simp add: update_absent_key)
    with True r v show ?thesis by (simp add: count_polarity_Cons)
  next
    case False
    with Cons.prems r have "(k, v0) \<in> set rows" "distinct (map fst rows)" by auto
    from Cons.IH[OF this(2) this(1)] False r show ?thesis by (simp add: count_polarity_Cons)
  qed
qed

lemma count_polarity_member: "(k, Val b0) \<in> set rows \<Longrightarrow> 1 \<le> count_polarity b0 rows"
  by (induction rows) (auto simp: count_polarity_def)

lemma map_fst_update:
  "map fst (map (\<lambda>(k', v'). if k' = k then (k', vn) else (k', v')) rows) = map fst rows"
  by (induction rows) auto

lemma live_step_distinct:
  "event_fits aid rows p \<Longrightarrow> distinct (map fst rows) \<Longrightarrow> distinct (map fst (live_step p rows))"
  using map_fst_update[of _ _ rows]
  by (auto simp: event_fits_def live_step_def distinct_map_filter simp del: map_map
      split: eventType.splits option.splits jsfield.splits)

lemma dec_floor_pos: "1 \<le> x \<Longrightarrow> dec_floor x = x - 1"
  by (simp add: dec_floor_def)

lemma like_step_counts:
  assumes fits: "event_fits aid rows p" and d: "distinct (map fst rows)"
    and l: "likesCount s = count_polarity True rows"
    and dl: "dislikesCount s = count_polarity False rows"
  shows "likesCount (fst (handleLikeChange aid p s)) = count_polarity True (live_step p rows) \<and>
         dislikesCount (fst (handleLikeChange aid p s)) = count_polarity False (live_step p rows)"
proof (cases "eventType p")
  case INSERT
  with fits l dl show ?thesis
    by (auto simp: event_fits_def handleLikeChange_def live_step_def Let_def truthy_like_def
        count_polarity_Cons split: option.splits jsfield.splits)
next
  case UPDATE
  from fits UPDATE obtain n od k b b0 where
    p: "new p = Some n" "old p = Some od" "like_id n = Some k" "is_like n = Val b" "is_like od = Val b0"
      "(k, Val b0) \<in> set rows" and g: "truthy aid" "like_targetId p = aid"
    by (auto simp: event_fits_def split: option.splits jsfield.splits)
  have m: "1 \<le> count_polarity b0 rows" using p(6) by (rule count_polarity_member)
  have lv: "live_step p rows = map (\<lambda>(k', v'). if k' = k then (k', is_like n) else (k', v')) rows"
    using UPDATE p by (simp add: live_step_def)
  have up: "count_polarity c (live_step p rows)
      = count_polarity c rows - (if b0 = c then 1 else 0) + (if b = c then 1 else 0)" for c
    unfolding lv using count_polarity_update[OF d p(6), where b = c and vn = "is_like n"] p(4)
    by simp
  have res: "handleLikeChange aid p s =
      (if b0 = b then (s, False)
       else if b then (s\<lparr>likesCount := likesCount s + 1, dislikesCount := dec_floor (dislikesCount s)\<rparr>, False)
       else (s\<lparr>dislikesCount := dislikesCount s + 1, likesCount := dec_floor (likesCount s)\<rparr>, False))"
    using UPDATE p g by (auto simp: handleLikeChange_def Let_def truthy_like_def)
  show ?thesis
    using l dl m up[of True] up[of False] unfolding res
    by (cases b; cases b0) (simp_all add: dec_floor_pos)
next
  case DELETE
  from fits DELETE obtain od k b0 where
    p: "old p = Some od" "like_id od = Some k" "is_like od = Val b0" "(k, Val b0) \<in> set rows"
    and g: "truthy aid" "like_targetId p = aid"
    by (auto simp: event_fits_def split: option.splits jsfield.splits)
  have m: "1 \<le> count_polarity b0 rows" using p(4) by (rule count_polarity_member)
  have lv: "live_step p rows = filter (\<lambda>(k', v'). k' \<noteq> k) rows"
    using DELETE p by (simp add: live_step_def)
  have dn: "count_polarity c (live_step p rows) = count_polarity c rows - (if b0 = c then 1 else 0)" for c
    unfolding lv using count_polarity_delete[OF d p(4), where b = c] by simp
  have res: "handleLikeChange aid p s =
      (if b0 then (s\<lparr>likesCount := dec_floor (likesCount s)\<rparr>, False)
       else (s\<lparr>dislikesCount := dec_floor (dislikesCount s)\<rparr>, False))"
    using DELETE p g by (auto simp: handleLikeChange_def Let_def truthy_like_def)
  show ?thesis
    using l dl m dn[of True] dn[of False] unfolding res
    by (cases b0) (simp_all add: dec_floor_pos)
next
  case TRUNCATE
  with fits show ?thesis by (simp add: event_fits_def)
qed

lemma fold_likes_counts:
  "stream_fits aid rows ps \<Longrightarrow> distinct (map fst rows) \<Longrightarrow>
   likesCount s = count_polarity True rows \<Longrightarrow> dislikesCount s = count_polarity False rows \<Longrightarrow>
   likesCount (fold_likes aid ps s) = count_polarity True (fold live_step ps rows) \<and>
   dislikesCount (fold_likes aid ps s) = count_polarity False (fold live_step ps rows)"
proof (induction ps arbitrary: rows s)
  case Nil
  then show ?case by (simp add: fold_likes_def)
next
  case (Cons p ps)
  from Cons.prems have fits: "event_fits aid rows p" and rest: "stream_fits aid (live_step p rows) ps"
    by simp_all
  note st = like_step_counts[OF fits Cons.prems(2) Cons.prems(3) Cons.prems(4)]
  have "likesCount (fold_likes aid ps (fst (handleLikeChange aid p s))) = count_polarity True (fold live_step ps (live_step p rows)) \<and>
    dislikesCount (fold_likes aid ps (fst (handleLikeChange aid p s))) = count_polarity False (fold live_step ps (live_step p rows))"
    using Cons.IH[OF rest live_step_distinct[OF fits Cons.prems(2)]] st by blast
  then show ?case by (simp add: fold_likes_def)
qed







lemma forget_owner_targetId: "like_targetId (forget_owner p) = like_targetId_rn p"
  by (auto simp: forget_owner_def like_targetId_def like_targetId_rn_def nullish_def opt_chain_def
      LikeRecord.truncate_def split: option.splits)

lemma forget_owner_fields:
  "eventType (forget_owner p) = eventType p"
  "new (forget_owner p) = map_option LikeRecord.truncate (new p)"
  "old (forget_owner p) = map_option LikeRecord.truncate (old p)"
  by (simp_all add: forget_owner_def)

lemma truncate_is_like: "is_like (LikeRecord.truncate r) = is_like r"
  by (simp add: LikeRecord.truncate_def)

lemma truncate_counters:
  "likesCount (page_state.truncate s) = likesCount s"
  "dislikesCount (page_state.truncate s) = dislikesCount s"
  by (simp_all add: page_state.truncate_def)

section \<open>The claims\<close>

text \<open>
  C1. A TRUNCATE on the reactions relation carries no row: \<^verbatim>\<open>payload.new\<close> and
  \<^verbatim>\<open>payload.old\<close> are empty objects. The claim asks that it reset both counters to 0,
  clear \<^verbatim>\<open>userReaction\<close> and start a re-fetch. In both revisions the article guard
  runs before the TRUNCATE branch and finds no article identifier in such a payload,
  so the handler returns at once: the state is the one it was given and
  \<^verbatim>\<open>fetchDetails\<close> is not called.
\<close>

theorem truncate_dropped_by_guard:
  assumes "eventType p = TRUNCATE" and "new p = Some no_row" and "old p = Some no_row"
    and "eventType q = TRUNCATE" and "new q = Some no_row_rn" and "old q = Some no_row_rn"
  shows "handleLikeChange aid p s = (s, False) \<and>
         handleLikeChange_rn aid userId q t = (t, False)"
  using assms
  by (simp add: handleLikeChange_def handleLikeChange_rn_def Let_def like_targetId_def
      like_targetId_rn_def no_row_def no_row_rn_def js_defs)

theorem truncate_dropped_by_guard_witness:
  "eventType (like_event TRUNCATE no_row no_row) = TRUNCATE \<and>
   new (like_event TRUNCATE no_row no_row) = Some no_row \<and>
   old (like_event TRUNCATE no_row no_row) = Some no_row \<and>
   handleLikeChange (Some ''a1'') (like_event TRUNCATE no_row no_row)
       (initial_state\<lparr>likesCount := 3, dislikesCount := 2, loading := False\<rparr>)
     = (initial_state\<lparr>likesCount := 3, dislikesCount := 2, loading := False\<rparr>, False) \<and>
   likesCount (fst (handleLikeChange (Some ''a1'') (like_event TRUNCATE no_row no_row)
       (initial_state\<lparr>likesCount := 3, dislikesCount := 2, loading := False\<rparr>))) = 3 \<and>
   dislikesCount (fst (handleLikeChange (Some ''a1'') (like_event TRUNCATE no_row no_row)
       (initial_state\<lparr>likesCount := 3, dislikesCount := 2, loading := False\<rparr>))) = 2 \<and>
   handleLikeChange_rn (Some ''a1'') (Some ''u1'') (like_event TRUNCATE no_row_rn no_row_rn)
       (initial_state_rn\<lparr>likesCount := 3, dislikesCount := 2, loading := False,
                          userReaction := Some Like\<rparr>)
     = (initial_state_rn\<lparr>likesCount := 3, dislikesCount := 2, loading := False,
                           userReaction := Some Like\<rparr>, False)"
proof -
  let ?p = "like_event TRUNCATE no_row no_row"
  let ?q = "like_event TRUNCATE no_row_rn no_row_rn"
  have h: "eventType ?p = TRUNCATE" "new ?p = Some no_row" "old ?p = Some no_row"
    "eventType ?q = TRUNCATE" "new ?q = Some no_row_rn" "old ?q = Some no_row_rn"
    by (simp_all add: like_event_def)
  from truncate_dropped_by_guard[OF h, where aid = "Some ''a1''" and userId = "Some ''u1''"
      and s = "initial_state\<lparr>likesCount := 3, dislikesCount := 2, loading := False\<rparr>"
      and t = "initial_state_rn\<lparr>likesCount := 3, dislikesCount := 2, loading := False,
                                 userReaction := Some Like\<rparr>"] h
  show ?thesis by (simp add: initial_state_def)
qed

text \<open>
  What the TRUNCATE branches behind the guard would do for a payload that did name
  the viewed article: \<^verbatim>\<open>NewsDetailPage.tsx\<close> calls \<^verbatim>\<open>fetchDetails\<close>, whose synchronous
  part sets \<^verbatim>\<open>loading\<close> and clears \<^verbatim>\<open>error\<close>; the react-news revision first sets both
  counters to 0 and \<^verbatim>\<open>userReaction\<close> to null, then calls \<^verbatim>\<open>fetchDetails\<close> through its
  ref.
\<close>

lemma truncate_branch_behind_guard:
  assumes "truthy aid"
    and "eventType p = TRUNCATE" and "like_targetId p = aid"
    and "eventType q = TRUNCATE" and "like_targetId_rn q = aid" and "fetchDetailsRef t"
  shows "handleLikeChange aid p s = (s\<lparr>loading := True, error := None\<rparr>, True) \<and>
         handleLikeChange_rn aid userId q t =
           (t\<lparr>likesCount := 0, dislikesCount := 0, userReaction := None,
               loading := True, error := None\<rparr>, True)"
  using assms
  by (simp add: handleLikeChange_def handleLikeChange_rn_def Let_def fetchDetails_start_def)

text \<open>
  C2. Fold a stream of reaction inserts, updates and deletes from zero counters, that
  is, from an empty relation. If every event fits the rows live when it arrives
  (\<^const>\<open>stream_fits\<close>: every payload names the viewed article, every \<^verbatim>\<open>is_like\<close> is a
  boolean, the identifiers of live rows are pairwise distinct, no event is delivered
  twice, each row's events come as insert, then updates, then delete, and the old row
  of an update or delete carries the identifier and the \<^verbatim>\<open>is_like\<close> the row has), the
  final \<^verbatim>\<open>likesCount\<close> and \<^verbatim>\<open>dislikesCount\<close> are the numbers of live rows (inserted and
  not yet deleted) with polarity like and dislike.
\<close>

theorem counters_equal_live_rows:
  assumes "stream_fits aid [] ps" and "likesCount s = 0" and "dislikesCount s = 0"
  shows "likesCount (fold_likes aid ps s) = count_polarity True (live ps) \<and>
         dislikesCount (fold_likes aid ps s) = count_polarity False (live ps)"
  using fold_likes_counts[OF assms(1), of s] assms(2,3) by (simp add: live_def count_polarity_def)

theorem counters_equal_live_rows_witness:
  "stream_fits (Some ''a1'') []
     [like_event INSERT (like_row ''r1'' ''a1'' (Val True)) no_row,
      like_event INSERT (like_row ''r2'' ''a1'' (Val False)) no_row,
      like_event UPDATE (like_row ''r1'' ''a1'' (Val False)) (like_row ''r1'' ''a1'' (Val True)),
      like_event DELETE no_row (like_row ''r2'' ''a1'' (Val False))] \<and>
   likesCount initial_state = 0 \<and> dislikesCount initial_state = 0 \<and>
   live
     [like_event INSERT (like_row ''r1'' ''a1'' (Val True)) no_row,
      like_event INSERT (like_row ''r2'' ''a1'' (Val False)) no_row,
      like_event UPDATE (like_row ''r1'' ''a1'' (Val False)) (like_row ''r1'' ''a1'' (Val True)),
      like_event DELETE no_row (like_row ''r2'' ''a1'' (Val False))] = [(''r1'', Val False)] \<and>
   likesCount (fold_likes (Some ''a1'')
     [like_event INSERT (like_row ''r1'' ''a1'' (Val True)) no_row,
      like_event INSERT (like_row ''r2'' ''a1'' (Val False)) no_row,
      like_event UPDATE (like_row ''r1'' ''a1'' (Val False)) (like_row ''r1'' ''a1'' (Val True)),
      like_event DELETE no_row (like_row ''r2'' ''a1'' (Val False))] initial_state) = 0 \<and>
   dislikesCount (fold_likes (Some ''a1'')
     [like_event INSERT (like_row ''r1'' ''a1'' (Val True)) no_row,
      like_event INSERT (like_row ''r2'' ''a1'' (Val False)) no_row,
      like_event UPDATE (like_row ''r1'' ''a1'' (Val False)) (like_row ''r1'' ''a1'' (Val True)),
      like_event DELETE no_row (like_row ''r2'' ''a1'' (Val False))] initial_state) = 1"
proof -
  let ?ps = "[like_event INSERT (like_row ''r1'' ''a1'' (Val True)) no_row,
      like_event INSERT (like_row ''r2'' ''a1'' (Val False)) no_row,
      like_event UPDATE (like_row ''r1'' ''a1'' (Val False)) (like_row ''r1'' ''a1'' (Val True)),
      like_event DELETE no_row (like_row ''r2'' ''a1'' (Val False))]"
  have l: "live ?ps = [(''r1'', Val False)]"
    by (simp add: live_def live_step_def example_defs)
  have f: "stream_fits (Some ''a1'') [] ?ps"
    by (simp add: event_fits_def live_step_def like_targetId_def example_defs js_defs)
  have z: "likesCount initial_state = 0" "dislikesCount initial_state = 0"
    by (simp_all add: initial_state_def)
  from counters_equal_live_rows[OF f z] l f z show ?thesis
    by (simp add: count_polarity_def)
qed

text \<open>
  C2 as stated asks only for pairwise distinct identifiers, no duplicate events and
  the order insert, update, delete. Three streams of that kind for the viewed article
  leave counters that differ from the live rows. (1) One insert whose \<^verbatim>\<open>is_like\<close> is
  null: the row is live and is neither a like nor a dislike, and \<^verbatim>\<open>dislikesCount\<close>
  is 1. (2) An insert of a like, then its delete with an old row that holds the
  identifier only: no row is live, the delete names no article and is dropped, and
  \<^verbatim>\<open>likesCount\<close> is 1. (3) An insert of a like, then an update that keeps it a like,
  with an old row that holds the identifier only: one like is live, the absent old
  \<^verbatim>\<open>is_like\<close> differs from \<^verbatim>\<open>true\<close>, and \<^verbatim>\<open>likesCount\<close> is 2.
\<close>

theorem counters_differ_from_live_rows:
  "live [like_event INSERT (like_row ''r1'' ''a1'' Null) no_row] = [(''r1'', Null)] \<and>
   count_polarity False (live [like_event INSERT (like_row ''r1'' ''a1'' Null) no_row]) = 0 \<and>
   dislikesCount (fold_likes (Some ''a1'')
     [like_event INSERT (like_row ''r1'' ''a1'' Null) no_row] initial_state) = 1 \<and>
   live [like_event INSERT (like_row ''r1'' ''a1'' (Val True)) no_row,
         like_event DELETE no_row (key_only_row ''r1'')] = [] \<and>
   count_polarity True (live [like_event INSERT (like_row ''r1'' ''a1'' (Val True)) no_row,
         like_event DELETE no_row (key_only_row ''r1'')]) = 0 \<and>
   likesCount (fold_likes (Some ''a1'')
     [like_event INSERT (like_row ''r1'' ''a1'' (Val True)) no_row,
      like_event DELETE no_row (key_only_row ''r1'')] initial_state) = 1 \<and>
   live [like_event INSERT (like_row ''r1'' ''a1'' (Val True)) no_row,
         like_event UPDATE (like_row ''r1'' ''a1'' (Val True)) (key_only_row ''r1'')]
     = [(''r1'', Val True)] \<and>
   count_polarity True (live [like_event INSERT (like_row ''r1'' ''a1'' (Val True)) no_row,
         like_event UPDATE (like_row ''r1'' ''a1'' (Val True)) (key_only_row ''r1'')]) = 1 \<and>
   likesCount (fold_likes (Some ''a1'')
     [like_event INSERT (like_row ''r1'' ''a1'' (Val True)) no_row,
      like_event UPDATE (like_row ''r1'' ''a1'' (Val True)) (key_only_row ''r1'')] initial_state) = 2"
  by (simp add: live_def live_step_def count_polarity_def fold_likes_def handleLikeChange_def
      Let_def like_targetId_def key_only_row_def example_defs js_defs)

text \<open>
  C3. A payload whose article identifier (\<^verbatim>\<open>payload.new?.news_id ?? payload.old?.news_id\<close>)
  is not the identifier of the viewed article changes nothing: each of the three
  handlers returns the state it was given, and the reaction handler calls no
  re-fetch.
\<close>

theorem foreign_event_ignored:
  assumes "like_targetId pl \<noteq> aid" and "comment_targetId pc \<noteq> aid" and "view_targetId pv \<noteq> aid"
  shows "handleLikeChange aid pl s = (s, False) \<and>
         handleCommentChange getTime aid pc s = s \<and>
         handleViewChange aid pv s = s"
  using assms
  by (simp add: handleLikeChange_def handleCommentChange_def handleViewChange_def Let_def)

theorem foreign_event_ignored_witness:
  "like_targetId (like_event INSERT (like_row ''r1'' ''a2'' (Val True)) no_row) \<noteq> Some ''a1'' \<and>
   comment_targetId (comment_insert (comment_row ''c1'' ''a2'' ''hi'' ''2024-01-01T00:00:00Z'')) \<noteq> Some ''a1'' \<and>
   view_targetId \<lparr>eventType = UPDATE, new = Some \<lparr>view_news_id = Some ''a2'', view_count = Some 7\<rparr>,
                   old = None\<rparr> \<noteq> Some ''a1'' \<and>
   handleLikeChange (Some ''a1'') (like_event INSERT (like_row ''r1'' ''a2'' (Val True)) no_row) initial_state
     = (initial_state, False) \<and>
   handleCommentChange example_getTime (Some ''a1'')
     (comment_insert (comment_row ''c1'' ''a2'' ''hi'' ''2024-01-01T00:00:00Z'')) initial_state = initial_state \<and>
   handleViewChange (Some ''a1'')
     \<lparr>eventType = UPDATE, new = Some \<lparr>view_news_id = Some ''a2'', view_count = Some 7\<rparr>, old = None\<rparr>
     initial_state = initial_state"
proof -
  let ?pl = "like_event INSERT (like_row ''r1'' ''a2'' (Val True)) no_row"
  let ?pc = "comment_insert (comment_row ''c1'' ''a2'' ''hi'' ''2024-01-01T00:00:00Z'')"
  let ?pv = "\<lparr>eventType = UPDATE, new = Some \<lparr>view_news_id = Some ''a2'', view_count = Some 7\<rparr>,
              old = None :: ViewRecord option\<rparr>"
  have h: "like_targetId ?pl \<noteq> Some ''a1''" "comment_targetId ?pc \<noteq> Some ''a1''"
    "view_targetId ?pv \<noteq> Some ''a1''"
    by (simp_all add: like_targetId_def comment_targetId_def view_targetId_def example_defs js_defs)
  from foreign_event_ignored[OF h, of initial_state example_getTime] h show ?thesis by simp
qed

text \<open>
  C4. Folding any sequence of reaction payloads (deletes without a prior insert
  included) from counters that are not negative, \<^verbatim>\<open>likesCount\<close> and \<^verbatim>\<open>dislikesCount\<close>
  are not negative after any number \<open>n\<close> of steps.
\<close>

theorem counters_never_negative:
  assumes "0 \<le> likesCount s" and "0 \<le> dislikesCount s"
  shows "\<forall>n. 0 \<le> likesCount (fold_likes aid (take n ps) s) \<and>
             0 \<le> dislikesCount (fold_likes aid (take n ps) s)"
  using assms fold_likes_nonneg by blast

theorem counters_never_negative_witness:
  "0 \<le> likesCount initial_state \<and> 0 \<le> dislikesCount initial_state \<and>
   (\<forall>n. 0 \<le> likesCount (fold_likes (Some ''a1'')
             (take n [like_event DELETE no_row (like_row ''r1'' ''a1'' (Val True)),
                      like_event INSERT (like_row ''r1'' ''a1'' (Val True)) no_row]) initial_state) \<and>
        0 \<le> dislikesCount (fold_likes (Some ''a1'')
             (take n [like_event DELETE no_row (like_row ''r1'' ''a1'' (Val True)),
                      like_event INSERT (like_row ''r1'' ''a1'' (Val True)) no_row]) initial_state)) \<and>
   likesCount (fold_likes (Some ''a1'') [like_event DELETE no_row (like_row ''r1'' ''a1'' (Val True))]
     initial_state) = 0"
proof -
  have z: "0 \<le> likesCount initial_state" "0 \<le> dislikesCount initial_state"
    by (simp_all add: initial_state_def)
  have d: "likesCount (fold_likes (Some ''a1'') [like_event DELETE no_row (like_row ''r1'' ''a1'' (Val True))]
     initial_state) = 0"
    by (simp add: fold_likes_def handleLikeChange_def Let_def like_targetId_def example_defs js_defs)
  from counters_never_negative[OF z] z d show ?thesis by blast
qed

text \<open>
  C5. Folding any sequence of comment payloads into a comment list that is sorted
  ascending by creation time and holds no identifier twice gives a list that is
  again sorted and holds no identifier twice.
\<close>

theorem comment_list_invariant:
  assumes "comments_sorted getTime (comments s)" and "comments_distinct (comments s)"
  shows "comments_sorted getTime (comments (fold_comments getTime aid ps s)) \<and>
         comments_distinct (comments (fold_comments getTime aid ps s))"
  using assms by (rule fold_comments_invariant)

theorem comment_list_invariant_witness:
  "comments_sorted example_getTime (comments initial_state) \<and>
   comments_distinct (comments initial_state) \<and>
   comments (fold_comments example_getTime (Some ''a1'')
      [comment_insert (comment_row ''c1'' ''a1'' ''hi'' ''2024-01-02T00:00:00Z''),
       comment_insert (comment_row ''c2'' ''a1'' ''yo'' ''2024-01-01T00:00:00Z'')] initial_state)
     = [comment_row ''c2'' ''a1'' ''yo'' ''2024-01-01T00:00:00Z'',
        comment_row ''c1'' ''a1'' ''hi'' ''2024-01-02T00:00:00Z''] \<and>
   comments_sorted example_getTime
     [comment_row ''c2'' ''a1'' ''yo'' ''2024-01-01T00:00:00Z'',
      comment_row ''c1'' ''a1'' ''hi'' ''2024-01-02T00:00:00Z''] \<and>
   comments_distinct
     [comment_row ''c2'' ''a1'' ''yo'' ''2024-01-01T00:00:00Z'',
      comment_row ''c1'' ''a1'' ''hi'' ''2024-01-02T00:00:00Z'']"
proof -
  let ?ps = "[comment_insert (comment_row ''c1'' ''a1'' ''hi'' ''2024-01-02T00:00:00Z''),
       comment_insert (comment_row ''c2'' ''a1'' ''yo'' ''2024-01-01T00:00:00Z'')]"
  have h: "comments_sorted example_getTime (comments initial_state)"
    "comments_distinct (comments initial_state)"
    by (simp_all add: comments_sorted_def comments_distinct_def initial_state_def)
  have e: "comments (fold_comments example_getTime (Some ''a1'') ?ps initial_state)
     = [comment_row ''c2'' ''a1'' ''yo'' ''2024-01-01T00:00:00Z'',
        comment_row ''c1'' ''a1'' ''hi'' ''2024-01-02T00:00:00Z'']"
    by (simp add: fold_comments_def handleCommentChange_def Let_def comment_targetId_def
        sortCommentsByDate_def example_defs js_defs)
  from comment_list_invariant[OF h, of "Some ''a1''" ?ps] h e show ?thesis by simp
qed

text \<open>
  C5 as stated asks only for an initially sorted list. A sorted list that already holds
  an identifier twice keeps both entries when a comment with another identifier is
  inserted: the handler removes only the entries that carry the identifier of the
  incoming row.
\<close>

theorem sorted_list_keeps_duplicates:
  "comments_sorted example_getTime
     [comment_row ''c1'' ''a1'' ''hi'' ''2024-01-01T00:00:00Z'',
      comment_row ''c1'' ''a1'' ''hi'' ''2024-01-01T00:00:00Z''] \<and>
   comments (fold_comments example_getTime (Some ''a1'')
      [comment_insert (comment_row ''c2'' ''a1'' ''yo'' ''2024-01-02T00:00:00Z'')]
      (initial_state\<lparr>comments :=
         [comment_row ''c1'' ''a1'' ''hi'' ''2024-01-01T00:00:00Z'',
          comment_row ''c1'' ''a1'' ''hi'' ''2024-01-01T00:00:00Z'']\<rparr>))
     = [comment_row ''c1'' ''a1'' ''hi'' ''2024-01-01T00:00:00Z'',
        comment_row ''c1'' ''a1'' ''hi'' ''2024-01-01T00:00:00Z'',
        comment_row ''c2'' ''a1'' ''yo'' ''2024-01-02T00:00:00Z''] \<and>
   \<not> comments_distinct (comments (fold_comments example_getTime (Some ''a1'')
      [comment_insert (comment_row ''c2'' ''a1'' ''yo'' ''2024-01-02T00:00:00Z'')]
      (initial_state\<lparr>comments :=
         [comment_row ''c1'' ''a1'' ''hi'' ''2024-01-01T00:00:00Z'',
          comment_row ''c1'' ''a1'' ''hi'' ''2024-01-01T00:00:00Z'']\<rparr>)))"
  by (simp add: fold_comments_def handleCommentChange_def Let_def comment_targetId_def
      sortCommentsByDate_def comments_sorted_def comments_distinct_def example_defs js_defs)

text \<open>
  C6. Handling the same comment payload twice gives the same state, hence the same
  comment list in the same order, as handling it once. This holds for every payload,
  in particular for every insert.
\<close>

theorem comment_event_idempotent:
  "handleCommentChange getTime aid p (handleCommentChange getTime aid p s)
     = handleCommentChange getTime aid p s"
  by (cases "eventType p")
     (auto simp: handleCommentChange_def Let_def upsert_twice split: option.splits)

theorem comment_event_idempotent_witness:
  "eventType (comment_insert (comment_row ''c2'' ''a1'' ''yo'' ''2024-01-01T00:00:00Z'')) = INSERT \<and>
   comments (handleCommentChange example_getTime (Some ''a1'')
       (comment_insert (comment_row ''c2'' ''a1'' ''yo'' ''2024-01-01T00:00:00Z''))
       (handleCommentChange example_getTime (Some ''a1'')
          (comment_insert (comment_row ''c2'' ''a1'' ''yo'' ''2024-01-01T00:00:00Z''))
          (initial_state\<lparr>comments := [comment_row ''c1'' ''a1'' ''hi'' ''2024-01-02T00:00:00Z'']\<rparr>)))
     = [comment_row ''c2'' ''a1'' ''yo'' ''2024-01-01T00:00:00Z'',
        comment_row ''c1'' ''a1'' ''hi'' ''2024-01-02T00:00:00Z'']"
proof -
  let ?p = "comment_insert (comment_row ''c2'' ''a1'' ''yo'' ''2024-01-01T00:00:00Z'')"
  let ?s = "initial_state\<lparr>comments := [comment_row ''c1'' ''a1'' ''hi'' ''2024-01-02T00:00:00Z'']\<rparr>"
  have e: "comments (handleCommentChange example_getTime (Some ''a1'') ?p ?s)
     = [comment_row ''c2'' ''a1'' ''yo'' ''2024-01-01T00:00:00Z'',
        comment_row ''c1'' ''a1'' ''hi'' ''2024-01-02T00:00:00Z'']"
    by (simp add: handleCommentChange_def Let_def comment_targetId_def
        sortCommentsByDate_def example_defs js_defs)
  have k: "eventType ?p = INSERT" by (simp add: comment_insert_def)
  from comment_event_idempotent[of example_getTime "Some ''a1''" ?p ?s] e k
  show ?thesis by simp
qed

text \<open>
  C7. The react-news revision keeps \<^verbatim>\<open>userReaction\<close>. A reaction insert for the viewed
  article whose \<^verbatim>\<open>user_id\<close> is the signed-in viewer's sets it to the polarity of the
  inserted row (like when \<^verbatim>\<open>is_like\<close> is true, dislike otherwise). A payload none of
  whose rows belongs to the viewer never sets it to a polarity: it stays as it was,
  or a TRUNCATE clears it.
\<close>

theorem user_reaction_follows_viewer:
  assumes "truthy aid" and "like_targetId_rn p = aid"
    and "eventType p = INSERT" and "new p = Some n"
    and "truthy userId" and "user_id n = userId"
    and "\<And>r. new q = Some r \<Longrightarrow> user_id r \<noteq> userId"
    and "\<And>r. old q = Some r \<Longrightarrow> user_id r \<noteq> userId"
  shows "userReaction (fst (handleLikeChange_rn aid userId p s))
           = Some (if is_like n = Val True then Like else Dislike) \<and>
         (userReaction (fst (handleLikeChange_rn aid userId q s)) = userReaction s \<or>
          eventType q = TRUNCATE \<and> userReaction (fst (handleLikeChange_rn aid userId q s)) = None)"
proof
  show "userReaction (fst (handleLikeChange_rn aid userId p s))
           = Some (if is_like n = Val True then Like else Dislike)"
    using assms(1-6)
    by (simp add: handleLikeChange_rn_def Let_def reaction_of_def truthy_like_def)
  show "userReaction (fst (handleLikeChange_rn aid userId q s)) = userReaction s \<or>
          eventType q = TRUNCATE \<and> userReaction (fst (handleLikeChange_rn aid userId q s)) = None"
    using assms(7,8)
    by (cases "eventType q")
       (auto simp: handleLikeChange_rn_def Let_def split: option.splits)
qed

theorem user_reaction_follows_viewer_witness:
  "truthy (Some ''a1'') \<and> truthy (Some ''u1'') \<and>
   like_targetId_rn (like_event INSERT (like_row_rn ''r1'' ''a1'' ''u1'' (Val True))
                        \<lparr>like_id = None, like_news_id = None, is_like = Undefined, user_id = None\<rparr>)
     = Some ''a1'' \<and>
   user_id (like_row_rn ''r1'' ''a1'' ''u1'' (Val True)) = Some ''u1'' \<and>
   user_id (like_row_rn ''r2'' ''a1'' ''u2'' (Val False)) \<noteq> Some ''u1'' \<and>
   userReaction (fst (handleLikeChange_rn (Some ''a1'') (Some ''u1'')
       (like_event INSERT (like_row_rn ''r1'' ''a1'' ''u1'' (Val True))
          \<lparr>like_id = None, like_news_id = None, is_like = Undefined, user_id = None\<rparr>)
       initial_state_rn)) = Some Like \<and>
   userReaction (fst (handleLikeChange_rn (Some ''a1'') (Some ''u1'')
       \<lparr>eventType = INSERT, new = Some (like_row_rn ''r2'' ''a1'' ''u2'' (Val False)), old = None\<rparr>
       initial_state_rn)) = None"
proof -
  let ?e = "\<lparr>like_id = None, like_news_id = None, is_like = Undefined, user_id = None\<rparr>"
  let ?n = "like_row_rn ''r1'' ''a1'' ''u1'' (Val True)"
  let ?p = "like_event INSERT ?n ?e"
  let ?q = "\<lparr>eventType = INSERT, new = Some (like_row_rn ''r2'' ''a1'' ''u2'' (Val False)),
             old = None :: LikeRecord_rn option\<rparr>"
  have h: "truthy (Some ''a1'')" "like_targetId_rn ?p = Some ''a1''" "eventType ?p = INSERT"
    "new ?p = Some ?n" "truthy (Some ''u1'')" "user_id ?n = Some ''u1''"
    by (simp_all add: like_targetId_rn_def example_defs js_defs)
  have o: "\<And>r. new ?q = Some r \<Longrightarrow> user_id r \<noteq> Some ''u1''"
    "\<And>r. old ?q = Some r \<Longrightarrow> user_id r \<noteq> Some ''u1''"
    by (auto simp: like_row_rn_def)
  have u: "user_id (like_row_rn ''r2'' ''a1'' ''u2'' (Val False)) \<noteq> Some ''u1''"
    by (simp add: like_row_rn_def)
  have r: "userReaction initial_state_rn = None" "eventType ?q \<noteq> TRUNCATE" "is_like ?n = Val True"
    by (simp_all add: example_defs)
  from user_reaction_follows_viewer[where q = ?q and s = initial_state_rn, OF h o] h u r show ?thesis by simp
qed



text \<open>
  C9. For the viewed article, an INSERT whose row has \<^verbatim>\<open>is_like\<close> null adds 1 to
  \<^verbatim>\<open>dislikesCount\<close> and leaves everything else. The snapshot counts such a row neither
  as a like nor as a dislike: with the row in \<^verbatim>\<open>data.likes\<close> the counters are the
  ones of the remaining rows.
\<close>

theorem null_polarity_disagreement:
  assumes "truthy aid" and "eventType p = INSERT" and "new p = Some n"
    and "like_news_id n = aid" and "is_like n = Null"
    and "fetchError r = None" and "data r = Some d" and "data_likes d = Some (n # ls)"
  shows "handleLikeChange aid p s = (s\<lparr>dislikesCount := dislikesCount s + 1\<rparr>, False) \<and>
         likesCount (fetchDetails getTime aid r s) = initialLikes ls \<and>
         dislikesCount (fetchDetails getTime aid r s) = initialDislikes ls"
proof -
  from assms(1,4) obtain i where i: "aid = Some i" "i \<noteq> []" "like_news_id n = Some i"
    by (cases aid) (auto simp: truthy_def)
  have "handleLikeChange aid p s = (s\<lparr>dislikesCount := dislikesCount s + 1\<rparr>, False)"
    using assms(2,3,5) i
    by (simp add: handleLikeChange_def Let_def like_targetId_def js_defs)
  moreover have "likesCount (fetchDetails getTime aid r s) = initialLikes ls"
    "dislikesCount (fetchDetails getTime aid r s) = initialDislikes ls"
    using assms(1,5-8)
    by (simp_all add: fetchDetails_def fetchDetails_start_def fetchDetails_finish_def
        initialLikes_def initialDislikes_def truthy_like_def)
  ultimately show ?thesis by simp
qed

theorem null_polarity_disagreement_witness:
  "truthy (Some ''a1'') \<and>
   is_like (like_row ''r1'' ''a1'' Null) = Null \<and>
   dislikesCount (fst (handleLikeChange (Some ''a1'') (like_event INSERT (like_row ''r1'' ''a1'' Null) no_row)
       initial_state)) = 1 \<and>
   likesCount (fetchDetails example_getTime (Some ''a1'')
       \<lparr>data = Some \<lparr>data_id = ''a1'', data_title = ''t'', data_text = ''x'',
                      data_created_at = ''2024-01-01T00:00:00Z'', data_tags = None, data_pictures = None,
                      data_comments = None, data_likes = Some [like_row ''r1'' ''a1'' Null],
                      data_views = None\<rparr>, fetchError = None\<rparr> initial_state) = 0 \<and>
   dislikesCount (fetchDetails example_getTime (Some ''a1'')
       \<lparr>data = Some \<lparr>data_id = ''a1'', data_title = ''t'', data_text = ''x'',
                      data_created_at = ''2024-01-01T00:00:00Z'', data_tags = None, data_pictures = None,
                      data_comments = None, data_likes = Some [like_row ''r1'' ''a1'' Null],
                      data_views = None\<rparr>, fetchError = None\<rparr> initial_state) = 0"
proof -
  let ?n = "like_row ''r1'' ''a1'' Null"
  let ?p = "like_event INSERT ?n no_row"
  let ?d = "\<lparr>data_id = ''a1'', data_title = ''t'', data_text = ''x'',
             data_created_at = ''2024-01-01T00:00:00Z'', data_tags = None, data_pictures = None,
             data_comments = None, data_likes = Some [?n], data_views = None\<rparr>"
  let ?r = "\<lparr>data = Some ?d, fetchError = None\<rparr>"
  have h: "truthy (Some ''a1'')" "eventType ?p = INSERT" "new ?p = Some ?n"
    "like_news_id ?n = Some ''a1''" "is_like ?n = Null"
    "fetchError ?r = None" "data ?r = Some ?d" "data_likes ?d = Some (?n # [])"
    by (simp_all add: example_defs js_defs)
  from null_polarity_disagreement[OF h, of initial_state example_getTime] h
  show ?thesis by (simp add: initialLikes_def initialDislikes_def initial_state_def)
qed

text \<open>
  C10. When the snapshot query answers with an error (and the page has an article
  identifier), \<^verbatim>\<open>fetchDetails\<close> ends with \<^verbatim>\<open>error\<close> holding the message and \<^verbatim>\<open>loading\<close>
  false, and every other part of the state as it was. The same holds for the part of
  \<^verbatim>\<open>fetchDetails\<close> after the \<^verbatim>\<open>await\<close>, from whatever state it resumes in.
\<close>

theorem fetch_error_atomic:
  assumes "truthy aid" and "fetchError r = Some message"
  shows "fetchDetails getTime aid r s = s\<lparr>error := Some message, loading := False\<rparr> \<and>
         fetchDetails_finish getTime aid r s' = s'\<lparr>error := Some message, loading := False\<rparr>"
  using assms by (simp add: fetchDetails_def fetchDetails_start_def fetchDetails_finish_def)

theorem fetch_error_atomic_witness:
  "truthy (Some ''a1'') \<and>
   fetchError \<lparr>data = None, fetchError = Some ''timeout''\<rparr> = Some ''timeout'' \<and>
   fetchDetails example_getTime (Some ''a1'') \<lparr>data = None, fetchError = Some ''timeout''\<rparr>
       (initial_state\<lparr>likesCount := 3, dislikesCount := 2, viewCount := 9, loading := False\<rparr>)
     = initial_state\<lparr>likesCount := 3, dislikesCount := 2, viewCount := 9, loading := False,
                      error := Some ''timeout''\<rparr>"
proof -
  let ?r = "\<lparr>data = None, fetchError = Some ''timeout''\<rparr>"
  have h: "truthy (Some ''a1'')" "fetchError ?r = Some ''timeout''"
    by (simp_all add: truthy_def)
  from fetch_error_atomic[OF h, of example_getTime
      "initial_state\<lparr>likesCount := 3, dislikesCount := 2, viewCount := 9, loading := False\<rparr>"] h
  show ?thesis by (simp add: initial_state_def)
qed

section \<open>Further properties\<close>

text \<open>
  A payload that names no article, such as a TRUNCATE whose \<^verbatim>\<open>new\<close> and \<^verbatim>\<open>old\<close> are
  empty objects, is dropped by the article guard of every handler, in both revisions:
  the reaction handlers start no re-fetch and reset nothing, the comment list and
  \<^verbatim>\<open>viewCount\<close> stay. The TRUNCATE branches run only for a payload that carries the
  identifier of the viewed article.
\<close>

theorem truncate_without_rows_dropped:
  assumes "like_targetId p = None" and "like_targetId_rn q = None"
    and "comment_targetId pc = None" and "view_targetId pv = None"
  shows "handleLikeChange aid p s = (s, False) \<and>
         handleLikeChange_rn aid userId q t = (t, False) \<and>
         handleCommentChange getTime aid pc s = s \<and>
         handleViewChange aid pv s = s"
  using assms
  by (simp add: handleLikeChange_def handleLikeChange_rn_def handleCommentChange_def
      handleViewChange_def Let_def truthy_def)

theorem truncate_without_rows_dropped_witness:
  "like_targetId (like_event TRUNCATE no_row no_row) = None \<and>
   like_targetId_rn \<lparr>eventType = TRUNCATE, new = None, old = None\<rparr> = None \<and>
   comment_targetId \<lparr>eventType = TRUNCATE, new = None, old = None\<rparr> = None \<and>
   view_targetId \<lparr>eventType = TRUNCATE, new = None, old = None\<rparr> = None \<and>
   handleLikeChange (Some ''a1'') (like_event TRUNCATE no_row no_row)
       (initial_state\<lparr>likesCount := 3\<rparr>) = (initial_state\<lparr>likesCount := 3\<rparr>, False) \<and>
   handleLikeChange_rn (Some ''a1'') (Some ''u1'') \<lparr>eventType = TRUNCATE, new = None, old = None\<rparr>
       (initial_state_rn\<lparr>likesCount := 3, userReaction := Some Like\<rparr>)
     = (initial_state_rn\<lparr>likesCount := 3, userReaction := Some Like\<rparr>, False) \<and>
   handleCommentChange example_getTime (Some ''a1'') \<lparr>eventType = TRUNCATE, new = None, old = None\<rparr>
       (initial_state\<lparr>likesCount := 3\<rparr>) = initial_state\<lparr>likesCount := 3\<rparr> \<and>
   handleViewChange (Some ''a1'') \<lparr>eventType = TRUNCATE, new = None, old = None\<rparr>
       (initial_state\<lparr>likesCount := 3\<rparr>) = initial_state\<lparr>likesCount := 3\<rparr>"
proof -
  let ?p = "like_event TRUNCATE no_row no_row"
  let ?q = "\<lparr>eventType = TRUNCATE, new = None :: LikeRecord_rn option, old = None :: LikeRecord_rn option\<rparr>"
  let ?pc = "\<lparr>eventType = TRUNCATE, new = None :: NewsComment option,
              old = None :: NewsComment_partial option\<rparr>"
  let ?pv = "\<lparr>eventType = TRUNCATE, new = None :: ViewRecord option, old = None :: ViewRecord option\<rparr>"
  have h: "like_targetId ?p = None" "like_targetId_rn ?q = None"
    "comment_targetId ?pc = None" "view_targetId ?pv = None"
    by (simp_all add: like_targetId_def like_targetId_rn_def comment_targetId_def view_targetId_def
        example_defs js_defs)
  from truncate_without_rows_dropped[OF h, where aid = "Some ''a1''" and userId = "Some ''u1''"
      and s = "initial_state\<lparr>likesCount := 3\<rparr>"
      and t = "initial_state_rn\<lparr>likesCount := 3, userReaction := Some Like\<rparr>"
      and getTime = example_getTime] h
  show ?thesis by simp
qed

text \<open>
  On an INSERT, UPDATE or DELETE payload the react-news revision changes
  \<^verbatim>\<open>likesCount\<close> and \<^verbatim>\<open>dislikesCount\<close> exactly as \<^verbatim>\<open>NewsDetailPage.tsx\<close> does on the
  same payload without the owner field.
\<close>

theorem rn_counters_agree:
  assumes "eventType p \<noteq> TRUNCATE"
  shows "likesCount (fst (handleLikeChange_rn aid userId p s))
           = likesCount (fst (handleLikeChange aid (forget_owner p) (page_state.truncate s))) \<and>
         dislikesCount (fst (handleLikeChange_rn aid userId p s))
           = dislikesCount (fst (handleLikeChange aid (forget_owner p) (page_state.truncate s)))"
  using assms
  by (cases "eventType p")
     (auto simp: handleLikeChange_rn_def handleLikeChange_def Let_def forget_owner_targetId
        forget_owner_fields truncate_is_like truncate_counters split: option.splits)

theorem rn_counters_agree_witness:
  "eventType (like_event UPDATE (like_row_rn ''r1'' ''a1'' ''u1'' (Val False))
                (like_row_rn ''r1'' ''a1'' ''u1'' (Val True))) \<noteq> TRUNCATE \<and>
   likesCount (fst (handleLikeChange_rn (Some ''a1'') (Some ''u1'')
       (like_event UPDATE (like_row_rn ''r1'' ''a1'' ''u1'' (Val False))
          (like_row_rn ''r1'' ''a1'' ''u1'' (Val True)))
       (initial_state_rn\<lparr>likesCount := 1\<rparr>))) = 0 \<and>
   dislikesCount (fst (handleLikeChange_rn (Some ''a1'') (Some ''u1'')
       (like_event UPDATE (like_row_rn ''r1'' ''a1'' ''u1'' (Val False))
          (like_row_rn ''r1'' ''a1'' ''u1'' (Val True)))
       (initial_state_rn\<lparr>likesCount := 1\<rparr>))) = 1 \<and>
   likesCount (fst (handleLikeChange (Some ''a1'')
       (like_event UPDATE (like_row ''r1'' ''a1'' (Val False)) (like_row ''r1'' ''a1'' (Val True)))
       (initial_state\<lparr>likesCount := 1\<rparr>))) = 0 \<and>
   dislikesCount (fst (handleLikeChange (Some ''a1'')
       (like_event UPDATE (like_row ''r1'' ''a1'' (Val False)) (like_row ''r1'' ''a1'' (Val True)))
       (initial_state\<lparr>likesCount := 1\<rparr>))) = 1"
proof -
  let ?p = "like_event UPDATE (like_row_rn ''r1'' ''a1'' ''u1'' (Val False))
                (like_row_rn ''r1'' ''a1'' ''u1'' (Val True))"
  have h: "eventType ?p \<noteq> TRUNCATE" by (simp add: like_event_def)
  have f: "forget_owner ?p
      = like_event UPDATE (like_row ''r1'' ''a1'' (Val False)) (like_row ''r1'' ''a1'' (Val True))"
    by (simp add: forget_owner_def LikeRecord.truncate_def example_defs)
  have s: "page_state.truncate (initial_state_rn\<lparr>likesCount := 1\<rparr>) = initial_state\<lparr>likesCount := 1\<rparr>"
    by (simp add: page_state.truncate_def example_defs)
  have a: "likesCount (fst (handleLikeChange (Some ''a1'')
       (like_event UPDATE (like_row ''r1'' ''a1'' (Val False)) (like_row ''r1'' ''a1'' (Val True)))
       (initial_state\<lparr>likesCount := 1\<rparr>))) = 0"
    "dislikesCount (fst (handleLikeChange (Some ''a1'')
       (like_event UPDATE (like_row ''r1'' ''a1'' (Val False)) (like_row ''r1'' ''a1'' (Val True)))
       (initial_state\<lparr>likesCount := 1\<rparr>))) = 1"
    by (simp_all add: handleLikeChange_def Let_def like_targetId_def example_defs js_defs)
  from rn_counters_agree[OF h, where aid = "Some ''a1''" and userId = "Some ''u1''"
      and s = "initial_state_rn\<lparr>likesCount := 1\<rparr>"] h a
  show ?thesis unfolding f s by simp
qed

end
